theory Spec2Isabelle
  imports Complex_Main "HOL-Library.Log_Nat"
begin

section \<open>Python values and exceptions\<close>

text \<open>
  The exceptions the modelled code can raise. \<open>AssertionError\<close> is what the
  \<^verbatim>\<open>assert\<close> of \<^verbatim>\<open>Controller.make_decision\<close> raises (the specification calls
  it InvalidParameterError); \<open>ConnectionError\<close> comes from \<^verbatim>\<open>requests.get\<close>
  (ProviderUnavailableError); \<open>ValueError\<close>, \<open>KeyError\<close>, \<open>TypeError\<close>,
  \<open>IndexError\<close> and \<open>AttributeError\<close> are what an unusable provider record
  produces (DataFormatError). \<open>OverflowError\<close> and \<open>OSError\<close> can come from
  \<^verbatim>\<open>datetime.fromtimestamp\<close>.
\<close>

datatype error =
    AssertionError
  | ValueError
  | KeyError
  | TypeError
  | IndexError
  | AttributeError
  | ConnectionError
  | OverflowError
  | OSError

subsection \<open>Numbers\<close>

text \<open>
  A Python \<^verbatim>\<open>float\<close> is an IEEE 754 binary64 value: a finite double, given by the
  real number it denotes, an infinity or a NaN. The sign of zero is not kept: no
  operation modelled here depends on it. A Python \<^verbatim>\<open>int\<close> is unbounded.
\<close>

datatype pyfloat = Finite real | PosInf | NegInf | NaN

datatype pynum = PInt int | PFloat pyfloat

text \<open>Powers of two with an integer exponent, and \<open>\<lfloor>log\<^sub>2 x\<rfloor>\<close> of a positive \<open>x\<close>
  computed on integers.\<close>

definition pow2 :: "int \<Rightarrow> real" where
  "pow2 e = (if 0 \<le> e then 2 ^ nat e else 1 / 2 ^ nat (- e))"

definition ilog2 :: "real \<Rightarrow> int" where
  "ilog2 x = (if 1 \<le> x then bitlen \<lfloor>x\<rfloor> - 1 else - bitlen (\<lceil>1 / x\<rceil> - 1))"

text \<open>Rounding to the nearest integer, a tie going to the even one.\<close>

definition round_even :: "real \<Rightarrow> int" where
  "round_even y =
     (let n = \<lfloor>y\<rfloor>; r = y - of_int n
      in if r < 1 / 2 then n else if 1 / 2 < r then n + 1 else if even n then n else n + 1)"

text \<open>
  The double nearest to a real number (round to nearest, ties to even): 53 significant
  bits, the exponent of the leading bit at least \<open>-1022\<close> (below that the spacing is
  that of the subnormal numbers, \<open>2\<^sup>-\<^sup>1\<^sup>0\<^sup>7\<^sup>4\<close>), and an infinity when the rounded
  magnitude reaches \<open>2\<^sup>1\<^sup>0\<^sup>2\<^sup>4\<close>. Every float operation below is the exact operation
  followed by this rounding, and a float literal denotes the rounding of its decimal.
\<close>

definition round_double :: "real \<Rightarrow> pyfloat" where
  "round_double x =
     (if x = 0 then Finite 0
      else
        let e = max (ilog2 \<bar>x\<bar>) (- 1022);
            ulp = pow2 (e - 52);
            y = of_int (round_even (\<bar>x\<bar> / ulp)) * ulp
        in if pow2 1024 \<le> y then (if 0 < x then PosInf else NegInf)
           else Finite (if 0 < x then y else - y))"

fun is_finite :: "pyfloat \<Rightarrow> bool" where
  "is_finite (Finite x) = True"
| "is_finite _ = False"

text \<open>Float addition and multiplication.\<close>

fun fadd :: "pyfloat \<Rightarrow> pyfloat \<Rightarrow> pyfloat" where
  "fadd (Finite x) (Finite y) = round_double (x + y)"
| "fadd NaN _ = NaN"
| "fadd _ NaN = NaN"
| "fadd PosInf NegInf = NaN"
| "fadd NegInf PosInf = NaN"
| "fadd PosInf _ = PosInf"
| "fadd _ PosInf = PosInf"
| "fadd NegInf _ = NegInf"
| "fadd _ NegInf = NegInf"

fun fneg :: "pyfloat \<Rightarrow> pyfloat" where
  "fneg (Finite x) = Finite (- x)"
| "fneg PosInf = NegInf"
| "fneg NegInf = PosInf"
| "fneg NaN = NaN"

fun fmul :: "pyfloat \<Rightarrow> pyfloat \<Rightarrow> pyfloat" where
  "fmul (Finite x) (Finite y) = round_double (x * y)"
| "fmul NaN _ = NaN"
| "fmul _ NaN = NaN"
| "fmul (Finite x) f = (if x = 0 then NaN else if 0 < x then f else fneg f)"
| "fmul f (Finite y) = (if y = 0 then NaN else if 0 < y then f else fneg f)"
| "fmul PosInf f = f"
| "fmul NegInf f = fneg f"

text \<open>The order comparison \<^verbatim>\<open><\<close> of floats: false whenever a NaN takes part.\<close>

fun fless :: "pyfloat \<Rightarrow> pyfloat \<Rightarrow> bool" where
  "fless (Finite x) (Finite y) = (x < y)"
| "fless NaN _ = False"
| "fless _ NaN = False"
| "fless PosInf _ = False"
| "fless _ NegInf = False"
| "fless _ PosInf = True"
| "fless NegInf _ = True"

text \<open>
  An \<^verbatim>\<open>int\<close> that meets a \<^verbatim>\<open>float\<close> in \<^verbatim>\<open>+\<close> or \<^verbatim>\<open>*\<close> is converted to the
  nearest double first, and the conversion raises \<^verbatim>\<open>OverflowError\<close> when that is
  no finite double. Comparisons convert nothing: Python compares an \<^verbatim>\<open>int\<close> and a
  \<^verbatim>\<open>float\<close> by their exact values.
\<close>

definition to_float :: "int \<Rightarrow> pyfloat" where
  "to_float n = round_double (of_int n)"

fun float_of :: "pynum \<Rightarrow> pyfloat" where
  "float_of (PInt n) = to_float n"
| "float_of (PFloat f) = f"

fun converts :: "pynum \<Rightarrow> bool" where
  "converts (PInt n) = is_finite (to_float n)"
| "converts (PFloat f) = True"

fun exact :: "pynum \<Rightarrow> pyfloat" where
  "exact (PInt n) = Finite (of_int n)"
| "exact (PFloat f) = f"

definition num_less :: "pynum \<Rightarrow> pynum \<Rightarrow> bool" where
  "num_less a b = fless (exact a) (exact b)"

text \<open>The value of \<^verbatim>\<open>a + b\<close> and of \<^verbatim>\<open>a * b\<close> when no conversion overflows, and the
  operations with the exception.\<close>

fun num_plus :: "pynum \<Rightarrow> pynum \<Rightarrow> pynum" where
  "num_plus (PInt a) (PInt b) = PInt (a + b)"
| "num_plus a b = PFloat (fadd (float_of a) (float_of b))"

fun num_times :: "pynum \<Rightarrow> pynum \<Rightarrow> pynum" where
  "num_times (PInt a) (PInt b) = PInt (a * b)"
| "num_times a b = PFloat (fmul (float_of a) (float_of b))"

fun py_add :: "pynum \<Rightarrow> pynum \<Rightarrow> error + pynum" where
  "py_add (PInt a) (PInt b) = Inr (PInt (a + b))"
| "py_add a b = (if converts a \<and> converts b then Inr (num_plus a b) else Inl OverflowError)"

fun py_mul :: "pynum \<Rightarrow> pynum \<Rightarrow> error + pynum" where
  "py_mul (PInt a) (PInt b) = Inr (PInt (a * b))"
| "py_mul a b = (if converts a \<and> converts b then Inr (num_times a b) else Inl OverflowError)"

subsection \<open>Decoded JSON\<close>

text \<open>
  A decoded JSON document, as \<^verbatim>\<open>response.json()\<close> returns it. A \<^verbatim>\<open>dict\<close> is an
  association list whose keys are distinct; lookup takes the first binding.
\<close>

datatype json =
    JNone
  | JBool bool
  | JNum pynum
  | JStr string
  | JList "json list"
  | JDict "(string \<times> json) list"

text \<open>Python's truth value of an object: \<^verbatim>\<open>None\<close>, \<^verbatim>\<open>False\<close>, zero and empty
  containers are false.\<close>

fun truthy :: "json \<Rightarrow> bool" where
  "truthy JNone = False"
| "truthy (JBool b) = b"
| "truthy (JNum (PInt n)) = (n \<noteq> 0)"
| "truthy (JNum (PFloat f)) = (f \<noteq> Finite 0)"
| "truthy (JStr s) = (s \<noteq> [])"
| "truthy (JList xs) = (xs \<noteq> [])"
| "truthy (JDict kvs) = (kvs \<noteq> [])"

text \<open>The value an object has in arithmetic and in an order comparison with a number:
  numbers are themselves, \<^verbatim>\<open>bool\<close> is a subclass of \<^verbatim>\<open>int\<close>; every other object
  makes \<^verbatim>\<open>+\<close> and \<^verbatim>\<open>>\<close> raise \<^verbatim>\<open>TypeError\<close>.\<close>

fun num_of :: "json \<Rightarrow> pynum option" where
  "num_of (JNum x) = Some x"
| "num_of (JBool b) = Some (PInt (if b then 1 else 0))"
| "num_of _ = None"

fun is_number :: "json \<Rightarrow> bool" where
  "is_number (JNum x) = True"
| "is_number _ = False"

text \<open>\<^verbatim>\<open>obj == n\<close> for an \<^verbatim>\<open>int\<close> constant \<open>n\<close> and \<^verbatim>\<open>obj == s\<close> for a string
  constant \<open>s\<close>: a number equals \<open>n\<close> when its exact value does, whether it is an
  \<^verbatim>\<open>int\<close>, a \<^verbatim>\<open>bool\<close> or a \<^verbatim>\<open>float\<close>.\<close>

definition eq_int :: "json \<Rightarrow> int \<Rightarrow> bool" where
  "eq_int obj n = (case num_of obj of None \<Rightarrow> False | Some v \<Rightarrow> exact v = Finite (of_int n))"

fun eq_str :: "json \<Rightarrow> string \<Rightarrow> bool" where
  "eq_str (JStr t) s = (t = s)"
| "eq_str _ s = False"

text \<open>\<^verbatim>\<open>obj[key]\<close> with a string key.\<close>

fun getitem :: "json \<Rightarrow> string \<Rightarrow> error + json" where
  "getitem (JDict kvs) k = (case map_of kvs k of None \<Rightarrow> Inl KeyError | Some v \<Rightarrow> Inr v)"
| "getitem _ k = Inl TypeError"

text \<open>\<^verbatim>\<open>obj[0]\<close>. A JSON dict has string keys only, so \<^verbatim>\<open>0\<close> is never a key.\<close>

fun getitem0 :: "json \<Rightarrow> error + json" where
  "getitem0 (JList xs) = (case xs of [] \<Rightarrow> Inl IndexError | x # _ \<Rightarrow> Inr x)"
| "getitem0 (JStr s) = (case s of [] \<Rightarrow> Inl IndexError | c # _ \<Rightarrow> Inr (JStr [c]))"
| "getitem0 (JDict kvs) = Inl KeyError"
| "getitem0 _ = Inl TypeError"

text \<open>\<^verbatim>\<open>obj.get(key, default)\<close>: only a dict has the method.\<close>

fun dict_get :: "json \<Rightarrow> string \<Rightarrow> json \<Rightarrow> error + json" where
  "dict_get (JDict kvs) k d = Inr (case map_of kvs k of None \<Rightarrow> d | Some v \<Rightarrow> v)"
| "dict_get _ k d = Inl AttributeError"

text \<open>\<^verbatim>\<open>for i in obj\<close>: the elements of a list, the keys of a dict, the characters
  of a string; nothing else is iterable.\<close>

fun iterate :: "json \<Rightarrow> error + json list" where
  "iterate (JList xs) = Inr xs"
| "iterate (JDict kvs) = Inr (map (\<lambda>kv. JStr (fst kv)) kvs)"
| "iterate (JStr s) = Inr (map (\<lambda>c. JStr [c]) s)"
| "iterate _ = Inl TypeError"

text \<open>Sequencing of statements that may raise.\<close>

definition ebind :: "error + 'a \<Rightarrow> ('a \<Rightarrow> error + 'b) \<Rightarrow> error + 'b" where
  "ebind m f = (case m of Inl e \<Rightarrow> Inl e | Inr x \<Rightarrow> f x)"

text \<open>\<^verbatim>\<open>xs[:n]\<close>: a negative bound counts from the end; the slice never raises.\<close>

definition slice_to :: "'a list \<Rightarrow> int \<Rightarrow> 'a list" where
  "slice_to xs n = (if n < 0 then take (length xs - nat (- n)) xs else take (nat n) xs)"

section \<open>weather.py: the data model\<close>

type_synonym datetime = real

text \<open>
  \<^verbatim>\<open>class DataPoint\<close>. Python does not enforce the annotations: every attribute
  holds whatever the provider record held, and \<open>rain_last_hour\<close> and
  \<open>rain_three_hours\<close> hold the empty dict \<open>JDict []\<close> when the record has no value.
  The attribute \<^verbatim>\<open>id\<close> is \<open>id_code\<close> here.
\<close>

record DataPoint =
  dt :: datetime
  temp :: json
  humidity :: json
  id_code :: json
  description :: json
  icon :: json
  city_name :: json
  rain_last_hour :: json
  rain_three_hours :: json

record Forecast =
  data :: "DataPoint list"

record WeatherAPI =
  location_name :: string
  api_key :: string
  units :: string
  count :: int
  current :: DataPoint
  forecast :: Forecast

text \<open>
  \<^verbatim>\<open>DataPoint.__init__\<close>. The attributes are assigned in the source's order, so the
  first failing lookup decides the exception. \<^verbatim>\<open>datetime.fromtimestamp\<close> is a
  parameter: on a number it returns the instant or raises for one out of range.
\<close>

definition DataPoint_init :: "(pynum \<Rightarrow> error + datetime) \<Rightarrow> json \<Rightarrow> error + DataPoint" where
  "DataPoint_init fromtimestamp json =
     ebind (getitem json ''dt'') (\<lambda>ts.
     ebind (case num_of ts of None \<Rightarrow> Inl TypeError | Some x \<Rightarrow> fromtimestamp x) (\<lambda>v_dt.
     ebind (ebind (dict_get json ''main'' (JDict [])) (\<lambda>m. getitem m ''temp'')) (\<lambda>v_temp.
     ebind (ebind (dict_get json ''main'' (JDict [])) (\<lambda>m. getitem m ''humidity'')) (\<lambda>v_humidity.
     ebind (ebind (ebind (dict_get json ''weather'' (JList [])) getitem0) (\<lambda>w. getitem w ''id'')) (\<lambda>v_id.
     ebind (ebind (ebind (dict_get json ''weather'' (JList [])) getitem0) (\<lambda>w. getitem w ''description'')) (\<lambda>v_description.
     ebind (ebind (ebind (dict_get json ''weather'' (JList [])) getitem0) (\<lambda>w. getitem w ''icon'')) (\<lambda>v_icon.
     ebind (dict_get json ''name'' (JDict [])) (\<lambda>v_city_name.
     ebind (ebind (dict_get json ''rain'' (JDict [])) (\<lambda>r. dict_get r ''1h'' (JDict []))) (\<lambda>v_rain_last_hour.
     ebind (ebind (dict_get json ''rain'' (JDict [])) (\<lambda>r. dict_get r ''3h'' (JDict []))) (\<lambda>v_rain_three_hours.
       Inr \<lparr>dt = v_dt, temp = v_temp, humidity = v_humidity, id_code = v_id,
            description = v_description, icon = v_icon, city_name = v_city_name,
            rain_last_hour = v_rain_last_hour,
            rain_three_hours = v_rain_three_hours\<rparr>))))))))))"

text \<open>The list comprehension of \<^verbatim>\<open>Forecast.__init__\<close>: it stops at the first record
  whose construction raises.\<close>

fun DataPoint_all :: "(pynum \<Rightarrow> error + datetime) \<Rightarrow> json list \<Rightarrow> error + DataPoint list" where
  "DataPoint_all fromtimestamp [] = Inr []"
| "DataPoint_all fromtimestamp (i # rest) =
     ebind (DataPoint_init fromtimestamp i) (\<lambda>p.
     ebind (DataPoint_all fromtimestamp rest) (\<lambda>ps. Inr (p # ps)))"

definition Forecast_init :: "(pynum \<Rightarrow> error + datetime) \<Rightarrow> json \<Rightarrow> error + Forecast" where
  "Forecast_init fromtimestamp json =
     ebind (getitem json ''list'') (\<lambda>l.
     ebind (iterate l) (\<lambda>items.
     ebind (DataPoint_all fromtimestamp items) (\<lambda>ps. Inr \<lparr>data = ps\<rparr>)))"

section \<open>weather.py: refreshing the held weather\<close>

text \<open>
  The condition of the \<^verbatim>\<open>if\<close> in \<^verbatim>\<open>WeatherAPI.get_weather\<close>, with Python's
  short-circuit \<^verbatim>\<open>or\<close>.
\<close>

definition responses_invalid :: "json \<Rightarrow> json \<Rightarrow> error + bool" where
  "responses_invalid current_json forecast_json =
     (if \<not> truthy current_json then Inr True
      else if \<not> truthy forecast_json then Inr True
      else ebind (getitem current_json ''cod'') (\<lambda>c.
        if \<not> eq_int c 200 then Inr True
        else ebind (getitem forecast_json ''cod'') (\<lambda>c'. Inr (\<not> eq_str c' ''200''))))"

text \<open>The \<^verbatim>\<open>raise ValueError(f"...")\<close>: building the message calls \<^verbatim>\<open>.get\<close> on both
  documents first.\<close>

definition raise_invalid :: "json \<Rightarrow> json \<Rightarrow> error" where
  "raise_invalid current_json forecast_json =
     (case dict_get current_json ''cod'' (JStr ''json is empty'') of
        Inl e \<Rightarrow> e
      | Inr _ \<Rightarrow>
          (case dict_get forecast_json ''cod'' (JStr ''json is empty'') of
             Inl e \<Rightarrow> e
           | Inr _ \<Rightarrow> ValueError))"

text \<open>
  \<^verbatim>\<open>WeatherAPI.get_weather\<close>. The two \<^verbatim>\<open>requests.get\<close> calls are given by their
  outcomes: \<open>Inl e\<close> when the call raises \<open>e\<close>, otherwise the outcome of the response's
  \<^verbatim>\<open>.json()\<close>. The result is the exception raised, if any, and the object as the
  call leaves it: an assignment made before a later statement raises stays made.
\<close>

definition get_weather ::
  "(pynum \<Rightarrow> error + datetime) \<Rightarrow> error + (error + json) \<Rightarrow> error + (error + json) \<Rightarrow>
   WeatherAPI \<Rightarrow> error option \<times> WeatherAPI" where
  "get_weather fromtimestamp current_get forecast_get self =
     (case current_get of Inl e \<Rightarrow> (Some e, self) | Inr current_resp \<Rightarrow>
      case forecast_get of Inl e \<Rightarrow> (Some e, self) | Inr forecast_resp \<Rightarrow>
      case current_resp of Inl e \<Rightarrow> (Some e, self) | Inr current_json \<Rightarrow>
      case forecast_resp of Inl e \<Rightarrow> (Some e, self) | Inr forecast_json \<Rightarrow>
      case responses_invalid current_json forecast_json of
        Inl e \<Rightarrow> (Some e, self)
      | Inr True \<Rightarrow> (Some (raise_invalid current_json forecast_json), self)
      | Inr False \<Rightarrow>
          (case DataPoint_init fromtimestamp current_json of
             Inl e \<Rightarrow> (Some e, self)
           | Inr c \<Rightarrow>
               (case Forecast_init fromtimestamp forecast_json of
                  Inl e \<Rightarrow> (Some e, self\<lparr>current := c\<rparr>)
                | Inr f \<Rightarrow> (None, self\<lparr>current := c, forecast := f\<rparr>))))"

section \<open>controller.py: the watering decision\<close>

text \<open>The three accumulators of the loop in \<^verbatim>\<open>Controller.make_decision\<close>. The
  parameter \<^verbatim>\<open>forecast\<close> of that function is \<open>fcast\<close> below.\<close>

record accum =
  total_rainfall :: pynum
  max_temp :: pynum
  max_humidity :: pynum

text \<open>One iteration of the loop body, in the source's order: rain, temperature,
  humidity. \<^verbatim>\<open>x > m\<close> is \<open>num_less m x\<close>.\<close>

definition accumulate_step :: "accum \<Rightarrow> DataPoint \<Rightarrow> error + accum" where
  "accumulate_step a time_step =
     ebind (if truthy (rain_three_hours time_step)
            then (case num_of (rain_three_hours time_step) of
                    None \<Rightarrow> Inl TypeError
                  | Some r \<Rightarrow> py_add (total_rainfall a) r)
            else Inr (total_rainfall a)) (\<lambda>tr.
     ebind (case num_of (temp time_step) of
              None \<Rightarrow> Inl TypeError
            | Some t \<Rightarrow> Inr (if num_less (max_temp a) t then t else max_temp a)) (\<lambda>mt.
     ebind (case num_of (humidity time_step) of
              None \<Rightarrow> Inl TypeError
            | Some h \<Rightarrow> Inr (if num_less (max_humidity a) h then h else max_humidity a)) (\<lambda>mh.
       Inr \<lparr>total_rainfall = tr, max_temp = mt, max_humidity = mh\<rparr>)))"

fun accumulate :: "accum \<Rightarrow> DataPoint list \<Rightarrow> error + accum" where
  "accumulate a [] = Inr a"
| "accumulate a (time_step # rest) =
     (case accumulate_step a time_step of
        Inl e \<Rightarrow> Inl e
      | Inr a' \<Rightarrow> accumulate a' rest)"

text \<open>
  \<^verbatim>\<open>Controller.make_decision\<close>. The literal \<^verbatim>\<open>0.45\<close> is the double nearest to
  \<open>0.45\<close>; the product \<^verbatim>\<open>0.45 * lookahead_time_steps\<close> is evaluated where the source
  evaluates it.
\<close>

definition make_decision :: "Forecast \<Rightarrow> int \<Rightarrow> int \<Rightarrow> int \<Rightarrow> error + bool" where
  "make_decision fcast sensor_moisture moisture_treshlod lookahead_hours =
     (if \<not> (3 \<le> lookahead_hours \<and> lookahead_hours < 120) then Inl AssertionError
      else
        let lookahead_time_steps = lookahead_hours div 3 in
        (case accumulate \<lparr>total_rainfall = PInt 0, max_temp = PInt 0, max_humidity = PInt 0\<rparr>
                (slice_to (data fcast) lookahead_time_steps) of
           Inl e \<Rightarrow> Inl e
         | Inr a \<Rightarrow>
             (if sensor_moisture < moisture_treshlod
              then ebind (py_mul (PFloat (round_double 0.45)) (PInt lookahead_time_steps))
                     (\<lambda>needed. Inr (if num_less (total_rainfall a) needed then True else False))
              else (if num_less (PInt 30) (max_temp a)
                    then ebind (py_mul (PFloat (round_double 0.45)) (PInt lookahead_time_steps))
                           (\<lambda>needed. Inr (if num_less (total_rainfall a) needed
                                               \<and> sensor_moisture < 60
                                            then True else False))
                    else Inr False))))"

section \<open>The aggregates the decision is specified by\<close>

text \<open>
  A data point that carries the annotated types of \<^verbatim>\<open>class DataPoint\<close>: a number
  for the temperature and for the humidity, and for the rain of the last three hours the
  empty dict (no value), a float, or an int of the range in which the doubles hold every
  integer.
\<close>

fun is_amount :: "json \<Rightarrow> bool" where
  "is_amount (JNum (PFloat f)) = True"
| "is_amount (JNum (PInt n)) = (\<bar>n\<bar> \<le> 2 ^ 53)"
| "is_amount _ = False"

definition well_typed :: "DataPoint \<Rightarrow> bool" where
  "well_typed p \<longleftrightarrow>
     is_number (temp p) \<and> is_number (humidity p) \<and>
     (rain_three_hours p = JDict [] \<or> is_amount (rain_three_hours p))"

text \<open>The rain values that a sequence of entries reports: an entry without a value, or
  with the value zero, reports nothing.\<close>

definition rain_values :: "DataPoint list \<Rightarrow> pynum list" where
  "rain_values ps =
     List.map_filter
       (\<lambda>p. if truthy (rain_three_hours p) then num_of (rain_three_hours p) else None) ps"

definition temperature :: "DataPoint \<Rightarrow> pynum" where
  "temperature p = (case num_of (temp p) of Some t \<Rightarrow> t | None \<Rightarrow> PInt 0)"

text \<open>
  The specification's \<open>totalRainfall\<close> and \<open>maxTemp\<close> of a sequence of entries, in
  Python's arithmetic: the sum of the reported rain, added from the left to \<open>0\<close> as
  \<^verbatim>\<open>sum\<close> does, and the maximum of \<open>0\<close> and the temperatures, the earlier of two equal
  values being kept as \<^verbatim>\<open>max\<close> does. \<open>highest\<close> is the maximum of a non-empty sequence
  alone.
\<close>

definition num_max :: "pynum \<Rightarrow> pynum \<Rightarrow> pynum" where
  "num_max m x = (if num_less m x then x else m)"

definition totalRainfall :: "DataPoint list \<Rightarrow> pynum" where
  "totalRainfall ps = foldl num_plus (PInt 0) (rain_values ps)"

definition maxTemp :: "DataPoint list \<Rightarrow> pynum" where
  "maxTemp ps = foldl num_max (PInt 0) (map temperature ps)"

fun highest :: "pynum list \<Rightarrow> pynum" where
  "highest [] = PInt 0"
| "highest (x # xs) = foldl num_max x xs"

text \<open>A running total that is a float, or an int of at most \<open>k\<close> summands from the
  range of \<open>is_amount\<close>: the invariant under which the loop's additions convert without
  overflow.\<close>

fun small :: "nat \<Rightarrow> pynum \<Rightarrow> bool" where
  "small k (PInt n) = (\<bar>n\<bar> \<le> int k * 2 ^ 53)"
| "small k (PFloat f) = True"

text \<open>The rain that \<open>k\<close> steps need: \<^verbatim>\<open>0.45 * k\<close>.\<close>

definition required_rain :: "int \<Rightarrow> pynum" where
  "required_rain k = num_times (PFloat (round_double 0.45)) (PInt k)"

text \<open>The first \<open>steps\<close> entries of a forecast, for a lookahead of \<open>h\<close> hours.\<close>

definition steps :: "int \<Rightarrow> int" where
  "steps h = h div 3"

definition window :: "Forecast \<Rightarrow> int \<Rightarrow> DataPoint list" where
  "window fcast h = take (nat (steps h)) (data fcast)"

section \<open>Sample data\<close>

text \<open>A float literal, and a forecast entry with the given temperature, humidity and
  three-hour rain.\<close>

definition lit :: "real \<Rightarrow> pynum" where
  "lit x = PFloat (round_double x)"

definition entry :: "pynum \<Rightarrow> pynum \<Rightarrow> json \<Rightarrow> DataPoint" where
  "entry t h r =
     \<lparr>dt = 0, temp = JNum t, humidity = JNum h, id_code = JNum (PInt 800),
      description = JStr ''clear sky'', icon = JStr ''01d'', city_name = JDict [],
      rain_last_hour = JDict [], rain_three_hours = r\<rparr>"

text \<open>Forecasts of three entries: rain of 0.12, 1.01 and 0.22 mm, and of 0.15, 1.00 and
  0.65 mm.\<close>

definition showers :: Forecast where
  "showers =
     \<lparr>data = [entry (lit 32) (PInt 50) (JNum (lit 0.12)),
              entry (lit 31.5) (PInt 55) (JNum (lit 1.01)),
              entry (PInt 30) (PInt 60) (JNum (lit 0.22))]\<rparr>"

definition drizzle :: Forecast where
  "drizzle =
     \<lparr>data = [entry (lit 32) (PInt 50) (JNum (lit 0.15)),
              entry (lit 31.5) (PInt 55) (JNum (lit 1.00)),
              entry (PInt 30) (PInt 60) (JNum (lit 0.65))]\<rparr>"

text \<open>Provider records: one without a \<^verbatim>\<open>"rain"\<close> object, one with rain values, and
  one that lacks the required \<^verbatim>\<open>"main"\<close> object.\<close>

definition record_dry :: json where
  "record_dry =
     JDict [(''dt'', JNum (PInt 1700000000)),
            (''main'', JDict [(''temp'', JNum (lit 20.5)), (''humidity'', JNum (PInt 50))]),
            (''weather'', JList [JDict [(''id'', JNum (PInt 800)),
                                        (''description'', JStr ''clear sky''),
                                        (''icon'', JStr ''01d'')]]),
            (''name'', JStr ''Eindhoven''),
            (''cod'', JNum (PInt 200))]"

definition record_rain :: json where
  "record_rain =
     JDict [(''dt'', JNum (PInt 1700000000)),
            (''main'', JDict [(''temp'', JNum (lit 12.25)), (''humidity'', JNum (PInt 90))]),
            (''weather'', JList [JDict [(''id'', JNum (PInt 500)),
                                        (''description'', JStr ''light rain''),
                                        (''icon'', JStr ''10d'')]]),
            (''rain'', JDict [(''1h'', JNum (PInt 0)), (''3h'', JNum (lit 1.5))])]"

definition record_broken :: json where
  "record_broken = JDict [(''dt'', JNum (PInt 1700000000))]"

definition forecast_ok :: json where
  "forecast_ok = JDict [(''cod'', JStr ''200''), (''list'', JList [record_rain])]"

definition forecast_broken :: json where
  "forecast_broken = JDict [(''cod'', JStr ''200''), (''list'', JList [record_broken])]"

definition unauthorized :: json where
  "unauthorized = JDict [(''cod'', JNum (PInt 401)), (''message'', JStr ''Invalid API key'')]"

text \<open>The data points that \<open>record_dry\<close> and \<open>record_rain\<close> describe.\<close>

definition point_dry :: DataPoint where
  "point_dry =
     \<lparr>dt = 1700000000, temp = JNum (lit 20.5), humidity = JNum (PInt 50),
      id_code = JNum (PInt 800), description = JStr ''clear sky'', icon = JStr ''01d'',
      city_name = JStr ''Eindhoven'', rain_last_hour = JDict [],
      rain_three_hours = JDict []\<rparr>"

definition point_rain :: DataPoint where
  "point_rain =
     \<lparr>dt = 1700000000, temp = JNum (lit 12.25), humidity = JNum (PInt 90),
      id_code = JNum (PInt 500), description = JStr ''light rain'', icon = JStr ''10d'',
      city_name = JDict [], rain_last_hour = JNum (PInt 0),
      rain_three_hours = JNum (lit 1.5)\<rparr>"

text \<open>A clock that accepts every finite timestamp, and a weather object holding
  earlier data.\<close>

definition clock :: "pynum \<Rightarrow> error + datetime" where
  "clock x =
     (case exact x of
        Finite r \<Rightarrow> Inr r
      | NaN \<Rightarrow> Inl ValueError
      | _ \<Rightarrow> Inl OverflowError)"

definition held :: WeatherAPI where
  "held =
     \<lparr>location_name = ''Eindhoven'', api_key = ''key'', units = ''metric'', count = 8,
      current = entry (PInt 5) (PInt 70) (JDict []),
      forecast = \<lparr>data = [entry (PInt 6) (PInt 70) (JDict [])]\<rparr>\<rparr>"

section \<open>Construction of data points\<close>

lemma ebind_Inr: "ebind m f = Inr y \<longleftrightarrow> (\<exists>x. m = Inr x \<and> f x = Inr y)"
  by (cases m) (simp_all add: ebind_def)

lemma getitem_Inr: "getitem j k = Inr v \<Longrightarrow> \<exists>kvs. j = JDict kvs \<and> map_of kvs k = Some v"
  by (cases j) (auto split: option.splits)

lemma getitem_error: "getitem j k = Inl e \<Longrightarrow> e = KeyError \<or> e = TypeError"
  by (cases j) (auto split: option.splits)

lemma DataPoint_init_rain:
  assumes "DataPoint_init fromtimestamp j = Inr p"
  shows "\<exists>kvs r. j = JDict kvs \<and>
             dict_get (JDict kvs) ''rain'' (JDict []) = Inr r \<and>
             dict_get r ''1h'' (JDict []) = Inr (rain_last_hour p) \<and>
             dict_get r ''3h'' (JDict []) = Inr (rain_three_hours p)"
proof -
  from assms obtain ts where "getitem j ''dt'' = Inr ts"
    unfolding DataPoint_init_def ebind_Inr by blast
  then obtain kvs where j: "j = JDict kvs" using getitem_Inr by blast
  show ?thesis
    using assms unfolding j DataPoint_init_def ebind_Inr by auto
qed

lemma absent_rain_step:
  assumes "rain_three_hours p = JDict []" and "accumulate_step a p = Inr a'"
  shows "total_rainfall a' = total_rainfall a"
  using assms unfolding accumulate_step_def ebind_Inr by auto

text \<open>
  C7. A data point constructed from a record without a \<^verbatim>\<open>"rain"\<close> object holds the
  empty dict, which is no number and so not zero, in both rain attributes; it adds
  nothing to the total rainfall, and one loop iteration over it leaves the total as it
  was. When the record has a rain
  object with a numeric \<^verbatim>\<open>"1h"\<close> or \<^verbatim>\<open>"3h"\<close> value, zero included, the attribute
  holds that value unchanged.
\<close>

theorem rain_fields_construction:
  assumes "DataPoint_init fromtimestamp json = Inr p"
  shows "(getitem json ''rain'' = Inl KeyError \<longrightarrow>
            rain_last_hour p = JDict [] \<and> rain_three_hours p = JDict [] \<and>
            (\<forall>x. rain_last_hour p \<noteq> JNum x) \<and> (\<forall>x. rain_three_hours p \<noteq> JNum x) \<and>
            totalRainfall [p] = PInt 0 \<and>
            (\<forall>a a'. accumulate_step a p = Inr a' \<longrightarrow> total_rainfall a' = total_rainfall a)) \<and>
         (\<forall>r x. getitem json ''rain'' = Inr r \<and> getitem r ''1h'' = Inr (JNum x) \<longrightarrow>
            rain_last_hour p = JNum x) \<and>
         (\<forall>r x. getitem json ''rain'' = Inr r \<and> getitem r ''3h'' = Inr (JNum x) \<longrightarrow>
            rain_three_hours p = JNum x)"
proof -
  from DataPoint_init_rain [OF assms] obtain kvs r where
    j: "json = JDict kvs" and
    r: "dict_get (JDict kvs) ''rain'' (JDict []) = Inr r"
       "dict_get r ''1h'' (JDict []) = Inr (rain_last_hour p)"
       "dict_get r ''3h'' (JDict []) = Inr (rain_three_hours p)" by blast
  have absent: "getitem json ''rain'' = Inl KeyError \<longrightarrow>
            rain_last_hour p = JDict [] \<and> rain_three_hours p = JDict [] \<and>
            (\<forall>x. rain_last_hour p \<noteq> JNum x) \<and> (\<forall>x. rain_three_hours p \<noteq> JNum x) \<and>
            totalRainfall [p] = PInt 0 \<and>
            (\<forall>a a'. accumulate_step a p = Inr a' \<longrightarrow> total_rainfall a' = total_rainfall a)"
  proof
    assume "getitem json ''rain'' = Inl KeyError"
    then have "map_of kvs ''rain'' = None"
      unfolding j by (simp split: option.splits)
    with r(1) have rr: "r = JDict []" by simp
    have e1: "rain_last_hour p = JDict []" using r(2) unfolding rr by simp
    have e2: "rain_three_hours p = JDict []" using r(3) unfolding rr by simp
    show "rain_last_hour p = JDict [] \<and> rain_three_hours p = JDict [] \<and>
            (\<forall>x. rain_last_hour p \<noteq> JNum x) \<and> (\<forall>x. rain_three_hours p \<noteq> JNum x) \<and>
            totalRainfall [p] = PInt 0 \<and>
            (\<forall>a a'. accumulate_step a p = Inr a' \<longrightarrow> total_rainfall a' = total_rainfall a)"
      using e1 e2 absent_rain_step [OF e2]
      by (simp add: totalRainfall_def rain_values_def List.map_filter_simps)
  qed
  have one: "\<forall>r x. getitem json ''rain'' = Inr r \<and> getitem r ''1h'' = Inr (JNum x) \<longrightarrow>
            rain_last_hour p = JNum x"
  proof (intro allI impI)
    fix r' x
    assume a: "getitem json ''rain'' = Inr r' \<and> getitem r' ''1h'' = Inr (JNum x)"
    then have "map_of kvs ''rain'' = Some r'"
      unfolding j by (simp split: option.splits)
    with r(1) have rr: "r = r'" by simp
    from a obtain rk where rk: "r' = JDict rk" "map_of rk ''1h'' = Some (JNum x)"
      using getitem_Inr by blast
    show "rain_last_hour p = JNum x" using r(2) rk unfolding rr by simp
  qed
  have three: "\<forall>r x. getitem json ''rain'' = Inr r \<and> getitem r ''3h'' = Inr (JNum x) \<longrightarrow>
            rain_three_hours p = JNum x"
  proof (intro allI impI)
    fix r' x
    assume a: "getitem json ''rain'' = Inr r' \<and> getitem r' ''3h'' = Inr (JNum x)"
    then have "map_of kvs ''rain'' = Some r'"
      unfolding j by (simp split: option.splits)
    with r(1) have rr: "r = r'" by simp
    from a obtain rk where rk: "r' = JDict rk" "map_of rk ''3h'' = Some (JNum x)"
      using getitem_Inr by blast
    show "rain_three_hours p = JNum x" using r(3) rk unfolding rr by simp
  qed
  show ?thesis using absent one three by blast
qed

lemma DataPoint_init_record_dry: "DataPoint_init clock record_dry = Inr point_dry"
  by (simp add: DataPoint_init_def record_dry_def point_dry_def ebind_def clock_def)

lemma DataPoint_init_record_rain: "DataPoint_init clock record_rain = Inr point_rain"
  by (simp add: DataPoint_init_def record_rain_def point_rain_def ebind_def clock_def)

theorem rain_fields_construction_witness:
  "DataPoint_init clock record_dry = Inr point_dry \<and>
   getitem record_dry ''rain'' = Inl KeyError \<and>
   rain_last_hour point_dry = JDict [] \<and> rain_three_hours point_dry = JDict [] \<and>
   accumulate_step \<lparr>total_rainfall = PInt 2, max_temp = PInt 0, max_humidity = PInt 0\<rparr>
       point_dry =
     Inr \<lparr>total_rainfall = PInt 2, max_temp = lit 20.5, max_humidity = PInt 50\<rparr> \<and>
   DataPoint_init clock record_rain = Inr point_rain \<and>
   getitem record_rain ''rain'' = Inr (JDict [(''1h'', JNum (PInt 0)), (''3h'', JNum (lit 1.5))]) \<and>
   rain_last_hour point_rain = JNum (PInt 0) \<and> rain_three_hours point_rain = JNum (lit 1.5)"
proof -
  have k: "getitem record_dry ''rain'' = Inl KeyError"
    by (simp add: record_dry_def)
  have s: "accumulate_step \<lparr>total_rainfall = PInt 2, max_temp = PInt 0, max_humidity = PInt 0\<rparr>
       point_dry =
     Inr \<lparr>total_rainfall = PInt 2, max_temp = lit 20.5, max_humidity = PInt 50\<rparr>"
    by code_simp
  have g: "getitem record_rain ''rain'' = Inr (JDict [(''1h'', JNum (PInt 0)), (''3h'', JNum (lit 1.5))])"
    by (simp add: record_rain_def)
  have g1: "getitem (JDict [(''1h'', JNum (PInt 0)), (''3h'', JNum (lit 1.5))]) ''1h'' = Inr (JNum (PInt 0))"
    and g3: "getitem (JDict [(''1h'', JNum (PInt 0)), (''3h'', JNum (lit 1.5))]) ''3h'' = Inr (JNum (lit 1.5))"
    by simp_all
  from rain_fields_construction [OF DataPoint_init_record_dry] k
  have d: "rain_last_hour point_dry = JDict []" "rain_three_hours point_dry = JDict []"
    by blast+
  from rain_fields_construction [OF DataPoint_init_record_rain] g g1 g3
  have w: "rain_last_hour point_rain = JNum (PInt 0)" "rain_three_hours point_rain = JNum (lit 1.5)"
    by blast+
  show ?thesis
    using DataPoint_init_record_dry DataPoint_init_record_rain k s g d w by blast
qed

section \<open>Refreshing the held weather\<close>

lemma eq_str_iff: "eq_str c s \<longleftrightarrow> c = JStr s"
  by (cases c) auto

lemma raise_invalid_cases:
  "raise_invalid current_json forecast_json = ValueError \<or>
   raise_invalid current_json forecast_json = AttributeError"
  by (cases current_json; cases forecast_json) (simp_all add: raise_invalid_def)

lemma responses_invalid_cases:
  assumes "\<not> ((\<exists>c. getitem current_json ''cod'' = Inr c \<and> eq_int c 200) \<and>
              getitem forecast_json ''cod'' = Inr (JStr ''200''))"
  shows "responses_invalid current_json forecast_json = Inr True \<or>
         responses_invalid current_json forecast_json = Inl KeyError \<or>
         responses_invalid current_json forecast_json = Inl TypeError"
proof (cases "getitem current_json ''cod''")
  case (Inl e)
  then show ?thesis
    using getitem_error [OF Inl] by (auto simp: responses_invalid_def ebind_def)
next
  case c: (Inr c)
  show ?thesis
  proof (cases "getitem forecast_json ''cod''")
    case (Inl e)
    then show ?thesis
      using c getitem_error [OF Inl] by (auto simp: responses_invalid_def ebind_def)
  next
    case (Inr c')
    then show ?thesis
      using c assms by (auto simp: responses_invalid_def ebind_def eq_str_iff)
  qed
qed

lemma get_weather_invalid:
  assumes bad: "\<not> ((\<exists>c. getitem current_json ''cod'' = Inr c \<and> eq_int c 200) \<and>
                    getitem forecast_json ''cod'' = Inr (JStr ''200''))"
  shows "\<exists>e. (e = ValueError \<or> e = KeyError \<or> e = TypeError \<or> e = AttributeError) \<and>
           get_weather fromtimestamp (Inr (Inr current_json)) (Inr (Inr forecast_json)) self =
             (Some e, self)"
proof -
  let ?g = "get_weather fromtimestamp (Inr (Inr current_json)) (Inr (Inr forecast_json)) self"
  from responses_invalid_cases [OF bad]
  consider (invalid) "responses_invalid current_json forecast_json = Inr True"
    | (key) "responses_invalid current_json forecast_json = Inl KeyError"
    | (type) "responses_invalid current_json forecast_json = Inl TypeError"
    by blast
  then show ?thesis
  proof cases
    case invalid
    then have g: "?g = (Some (raise_invalid current_json forecast_json), self)"
      by (simp add: get_weather_def)
    from raise_invalid_cases [of current_json forecast_json] show ?thesis
    proof
      assume "raise_invalid current_json forecast_json = ValueError"
      with g have "?g = (Some ValueError, self)" by simp
      then show ?thesis by blast
    next
      assume "raise_invalid current_json forecast_json = AttributeError"
      with g have "?g = (Some AttributeError, self)" by simp
      then show ?thesis by blast
    qed
  next
    case key
    then have "?g = (Some KeyError, self)" by (simp add: get_weather_def)
    then show ?thesis by blast
  next
    case type
    then have "?g = (Some TypeError, self)" by (simp add: get_weather_def)
    then show ?thesis by blast
  qed
qed

text \<open>
  C8. For every pair of decoded provider documents, \<open>get_weather\<close> returns normally only
  if the current document has a \<^verbatim>\<open>cod\<close> equal to the number 200 and the forecast document has
  \<^verbatim>\<open>cod\<close> equal to \<^verbatim>\<open>'200'\<close>. If either does not, the call raises one of
  \<open>ValueError\<close>, \<open>KeyError\<close>, \<open>TypeError\<close> and \<open>AttributeError\<close> (the exceptions of an
  unusable response) and the object is left exactly as it was.
\<close>

theorem refresh_needs_success_codes:
  "(fst (get_weather fromtimestamp (Inr (Inr current_json)) (Inr (Inr forecast_json)) self) = None \<longrightarrow>
      (\<exists>c. getitem current_json ''cod'' = Inr c \<and> eq_int c 200) \<and>
      getitem forecast_json ''cod'' = Inr (JStr ''200'')) \<and>
   (\<not> ((\<exists>c. getitem current_json ''cod'' = Inr c \<and> eq_int c 200) \<and>
        getitem forecast_json ''cod'' = Inr (JStr ''200'')) \<longrightarrow>
      (\<exists>e. (e = ValueError \<or> e = KeyError \<or> e = TypeError \<or> e = AttributeError) \<and>
           get_weather fromtimestamp (Inr (Inr current_json)) (Inr (Inr forecast_json)) self =
             (Some e, self)))"
proof (rule conjI; rule impI)
  assume ok: "fst (get_weather fromtimestamp (Inr (Inr current_json)) (Inr (Inr forecast_json)) self) = None"
  show "(\<exists>c. getitem current_json ''cod'' = Inr c \<and> eq_int c 200) \<and>
        getitem forecast_json ''cod'' = Inr (JStr ''200'')"
  proof (rule ccontr)
    assume "\<not> ((\<exists>c. getitem current_json ''cod'' = Inr c \<and> eq_int c 200) \<and>
               getitem forecast_json ''cod'' = Inr (JStr ''200''))"
    from get_weather_invalid [OF this, of fromtimestamp self] obtain e where
      "get_weather fromtimestamp (Inr (Inr current_json)) (Inr (Inr forecast_json)) self = (Some e, self)"
      by blast
    with ok show False by simp
  qed
next
  assume "\<not> ((\<exists>c. getitem current_json ''cod'' = Inr c \<and> eq_int c 200) \<and>
             getitem forecast_json ''cod'' = Inr (JStr ''200''))"
  then show "\<exists>e. (e = ValueError \<or> e = KeyError \<or> e = TypeError \<or> e = AttributeError) \<and>
           get_weather fromtimestamp (Inr (Inr current_json)) (Inr (Inr forecast_json)) self =
             (Some e, self)"
    by (rule get_weather_invalid)
qed

lemma Forecast_init_forecast_ok: "Forecast_init clock forecast_ok = Inr \<lparr>data = [point_rain]\<rparr>"
  using DataPoint_init_record_rain
  by (simp add: Forecast_init_def forecast_ok_def ebind_def)

lemma responses_invalid_ok: "responses_invalid record_dry forecast_ok = Inr False"
  by (simp add: responses_invalid_def record_dry_def forecast_ok_def ebind_def eq_int_def)

theorem refresh_needs_success_codes_witness:
  "fst (get_weather clock (Inr (Inr record_dry)) (Inr (Inr forecast_ok)) held) = None \<and>
   (\<exists>c. getitem record_dry ''cod'' = Inr c \<and> eq_int c 200) \<and>
   getitem forecast_ok ''cod'' = Inr (JStr ''200'') \<and>
   \<not> ((\<exists>c. getitem unauthorized ''cod'' = Inr c \<and> eq_int c 200) \<and>
      getitem forecast_ok ''cod'' = Inr (JStr ''200'')) \<and>
   (\<exists>e. (e = ValueError \<or> e = KeyError \<or> e = TypeError \<or> e = AttributeError) \<and>
        get_weather clock (Inr (Inr unauthorized)) (Inr (Inr forecast_ok)) held = (Some e, held))"
proof -
  have ok: "fst (get_weather clock (Inr (Inr record_dry)) (Inr (Inr forecast_ok)) held) = None"
    using responses_invalid_ok DataPoint_init_record_dry Forecast_init_forecast_ok
    by (simp add: get_weather_def)
  have bad: "\<not> ((\<exists>c. getitem unauthorized ''cod'' = Inr c \<and> eq_int c 200) \<and>
      getitem forecast_ok ''cod'' = Inr (JStr ''200''))"
    by (simp add: unauthorized_def eq_int_def)
  show ?thesis
    using ok bad refresh_needs_success_codes [of clock record_dry forecast_ok held]
      refresh_needs_success_codes [of clock unauthorized forecast_ok held]
    by blast
qed

lemma Forecast_init_forecast_broken: "Forecast_init clock forecast_broken = Inl KeyError"
  by (simp add: Forecast_init_def forecast_broken_def record_broken_def DataPoint_init_def
      ebind_def clock_def)

lemma responses_invalid_broken: "responses_invalid record_dry forecast_broken = Inr False"
  by (simp add: responses_invalid_def record_dry_def forecast_broken_def ebind_def eq_int_def)

text \<open>
  C5. A refresh is meant to replace the held current data point and the held forecast
  together or not at all. \<open>get_weather\<close> assigns \<^verbatim>\<open>self.current\<close> before it
  constructs the forecast: with a valid current document and a forecast document whose
  status is \<^verbatim>\<open>'200'\<close> but whose first entry lacks \<^verbatim>\<open>"main"\<close>, the call raises
  \<open>KeyError\<close>, the held current data point has been replaced and the held forecast is
  the old one.
\<close>

theorem refresh_partial_update:
  "fst (get_weather clock (Inr (Inr record_dry)) (Inr (Inr forecast_broken)) held) = Some KeyError \<and>
   current (snd (get_weather clock (Inr (Inr record_dry)) (Inr (Inr forecast_broken)) held)) = point_dry \<and>
   current held \<noteq> point_dry \<and>
   forecast (snd (get_weather clock (Inr (Inr record_dry)) (Inr (Inr forecast_broken)) held)) = forecast held"
proof -
  have "get_weather clock (Inr (Inr record_dry)) (Inr (Inr forecast_broken)) held =
          (Some KeyError, held\<lparr>current := point_dry\<rparr>)"
    using responses_invalid_broken DataPoint_init_record_dry Forecast_init_forecast_broken
    by (simp add: get_weather_def)
  moreover have "current held \<noteq> point_dry"
    by (simp add: held_def entry_def point_dry_def)
  ultimately show ?thesis by simp
qed

end
